theory Spec2Isabelle
  imports Main
begin

section \<open>Data model (Discovery.ts, lines 7-101)\<close>

text \<open>
  The interfaces of the source. The nested endpoint groups are only carried along by the
  coordinator, so they are datatypes with positional fields (the field names of the
  source are given in the comments; several names occur in more than one interface).
  JavaScript numbers are modelled as \<open>int\<close>; the one non-integer value the code can produce,
  \<open>NaN\<close> (from \<open>undefined - n\<close>), is treated where it arises.
\<close>

datatype ExternalDisconveryAuthApiData =
  ExternalDisconveryAuthApiData string string string string
  \<comment> \<open>authorizationUri, oidcDiscoveryUri, baseUri, tokenUri\<close>

datatype InitialDisconveryAuthApiData =
  InitialDisconveryAuthApiData string string string
  \<comment> \<open>authorizationUri, oidcDiscoveryUri, defaultTokenUri\<close>

datatype DiscoveryCoreApiData = DiscoveryCoreApiData string
  \<comment> \<open>baseUri\<close>

record ExternalDiscoveryApiData =
  externalUri :: string
  initialUri :: string

datatype InitialDiscoveryApiData = InitialDiscoveryApiData string
  \<comment> \<open>defaultExternalUri\<close>

datatype DisconveryGlipData = DisconveryGlipData string string
  \<comment> \<open>discovery, entry\<close>

datatype DiscoveryRcvData = DiscoveryRcvData string string string
  \<comment> \<open>baseWebUri, baseApiUri, pubnubOrigin\<close>

datatype DiscoveryRcmData = DiscoveryRcmData string string
  \<comment> \<open>baseWebUri, sdkDomain\<close>

datatype DiscoveryEdcData = DiscoveryEdcData string
  \<comment> \<open>baseUri\<close>

datatype InitialDiscoveryData =
  InitialDiscoveryData string int int InitialDiscoveryApiData InitialDisconveryAuthApiData
    DiscoveryCoreApiData DiscoveryRcmData DiscoveryRcvData
    "DiscoveryEdcData option" "DisconveryGlipData option"
  \<comment> \<open>version, retryCount, retryInterval, discoveryApi, authApi, coreApi, rcm, rcv, edc?, glip?\<close>

text \<open>
  The external document. \<open>tag\<close> is optional in the source; \<open>expiresIn\<close> and
  \<open>expireTime\<close> are declared as numbers, but the code tests \<open>expiresIn\<close> for
  falsiness and writes \<open>expireTime: undefined\<close>, so both are optional here
  (\<open>None\<close> is \<open>undefined\<close>).
\<close>

record ExternalDisconveryData =
  version :: string
  tag :: "string option"
  expiresIn :: "int option"
  expireTime :: "int option"
  retryCount :: int
  retryInterval :: int
  retryCycleDelay :: int
  discoveryApi :: ExternalDiscoveryApiData
  authApi :: ExternalDisconveryAuthApiData
  coreApi :: DiscoveryCoreApiData
  rcm :: DiscoveryRcmData
  rcv :: DiscoveryRcvData
  edc :: "DiscoveryEdcData option"
  glip :: "DisconveryGlipData option"

datatype events = E_initialized | E_externalDataUpdated
  \<comment> \<open>\<open>'initialized'\<close>, \<open>'external-data-updated'\<close>\<close>

definition DEFAULT_RETRY_COUNT :: int where
  "DEFAULT_RETRY_COUNT = 3"

definition DEFAULT_RETRY_Interval :: int where
  "DEFAULT_RETRY_Interval = 3"

definition DEFAULT_RENEW_HANDICAP_MS :: int where
  "DEFAULT_RENEW_HANDICAP_MS = 60 * 1000"

section \<open>Values, failures and JavaScript truthiness\<close>

text \<open>
  The values that flow through the promises of the coordinator: the primitive values
  (a cache may hand back any falsy value), the two documents, and a transport response,
  of which the code reads only the headers (an association list).
\<close>

datatype jsval =
    JUndefined
  | JNull
  | JBool bool
  | JNum int
  | JNaN
  | JStr string
  | JInitial InitialDiscoveryData
  | JExternal ExternalDisconveryData
  | JResponse "(string \<times> string) list"

datatype jserr =
    Error string       \<comment> \<open>\<open>new Error(msg)\<close> thrown by the coordinator\<close>
  | TypeError string   \<comment> \<open>a property read or written on a value that has no such property\<close>
  | Failure string     \<comment> \<open>a failure of the transport or of JSON parsing\<close>

fun truthy :: "jsval \<Rightarrow> bool" where
  "truthy JUndefined = False"
| "truthy JNull = False"
| "truthy (JBool b) = b"
| "truthy (JNum n) = (n \<noteq> 0)"
| "truthy JNaN = False"
| "truthy (JStr s) = (s \<noteq> [])"
| "truthy (JInitial d) = True"
| "truthy (JExternal d) = True"
| "truthy (JResponse h) = True"

text \<open>\<open>data || null\<close> (lines 240 and 245).\<close>

definition or_null :: "jsval \<Rightarrow> jsval" where
  "or_null data = (if truthy data then data else JNull)"

text \<open>\<open>!this._clientId\<close> is true for a missing (\<open>None\<close>) and for an empty identifier.\<close>

fun truthy_str :: "string option \<Rightarrow> bool" where
  "truthy_str None = False"
| "truthy_str (Some s) = (s \<noteq> [])"

text \<open>\<open>if (newData.expiresIn)\<close>: a missing and a zero \<open>expiresIn\<close> are falsy.\<close>

fun truthy_num :: "int option \<Rightarrow> bool" where
  "truthy_num None = False"
| "truthy_num (Some n) = (n \<noteq> 0)"

section \<open>The pure parts of the coordinator\<close>

text \<open>
  The object written by \<open>_setExternalData\<close> (lines 253-260) at time \<open>now\<close>:
  \<open>{...newData, expireTime: expireTime}\<close>, where \<open>expireTime\<close> stays
  \<open>undefined\<close> unless \<open>newData.expiresIn\<close> is truthy.
\<close>

definition stored_external :: "int \<Rightarrow> ExternalDisconveryData \<Rightarrow> ExternalDisconveryData" where
  "stored_external now newData =
     newData\<lparr>expireTime :=
       (if truthy_num (expiresIn newData) then Some (now + the (expiresIn newData) * 1000)
        else None)\<rparr>"

text \<open>
  The value returned by \<open>externalDataExpired\<close> (lines 276-279) for the result
  \<open>data\<close> of \<open>externalData()\<close>. A value without a numeric \<open>expireTime\<close>
  makes the left-hand side \<open>NaN\<close>, and every comparison with \<open>NaN\<close> is false.
\<close>

fun expireTime_of :: "jsval \<Rightarrow> int option" where
  "expireTime_of (JExternal d) = expireTime d"
| "expireTime_of data = None"

definition expired_result :: "int \<Rightarrow> int \<Rightarrow> jsval \<Rightarrow> bool" where
  "expired_result handicap now data =
     (if \<not> truthy data then True
      else (case expireTime_of data of
              None \<Rightarrow> False
            | Some t \<Rightarrow> t - handicap > now))"

text \<open>
  \<open>response.headers.get('discovery-tag')\<close> and the assignment
  \<open>externalData.tag = discoveryTag\<close> (lines 195-198). The header is attached only when
  it is truthy, that is, present and not empty.
\<close>

definition attach_tag :: "(string \<times> string) list \<Rightarrow> ExternalDisconveryData \<Rightarrow> ExternalDisconveryData" where
  "attach_tag headers externalData =
     (let discoveryTag = map_of headers ''discovery-tag''
      in if truthy_str discoveryTag then externalData\<lparr>tag := discoveryTag\<rparr> else externalData)"


section \<open>Promises, suspended functions and the collaborators\<close>

text \<open>
  The coordinator is asynchronous: every method returns a promise, and a method body runs
  until its next \<open>await\<close>, where it is suspended until the awaited promise settles.
  Promises are numbered. A promise is pending, fulfilled with a value or rejected with a
  failure.
\<close>

type_synonym pid = nat

datatype pstate = Pending | Fulfilled jsval | Rejected jserr

type_synonym settled = "jserr + jsval"

text \<open>
  The calls the coordinator makes on its collaborators (the transport \<open>fetchGet\<close>, the
  cache, the timer \<open>delay\<close>, the event emitter), in the order it makes them.
\<close>

datatype query = NoQuery | ClientIdQuery "string option"
  \<comment> \<open>\<open>null\<close>, \<open>{clientId: this._clientId}\<close>\<close>

datatype fetch_options = SkipAuthCheck | SkipDiscoveryCheck
  \<comment> \<open>\<open>{skipAuthCheck: true}\<close>, \<open>{skipDiscoveryCheck: true}\<close>\<close>

datatype effect =
    FetchGet string query fetch_options
  | GetItem string
  | SetItem string jsval
  | RemoveItem string
  | Delay int
  | Emit events jsval

datatype slot = Initial | External

text \<open>
  A pending request to a collaborator. The collaborators are not part of
  \<open>Discovery.ts\<close>: the transport is the injected function \<open>fetchGet\<close>, the cache the
  injected object \<open>cache\<close>. Their answers are supplied from outside (the action
  \<open>Reply\<close> below).
\<close>

datatype request = RFetchGet | RJson slot | RGetItem slot | RSetItem | RRemoveItem | RDelay

fun is_failure :: "settled \<Rightarrow> bool" where
  "is_failure (Inl (Failure m)) = True"
| "is_failure out = False"

fun is_response :: "settled \<Rightarrow> bool" where
  "is_response (Inr (JResponse h)) = True"
| "is_response out = False"

fun is_document :: "slot \<Rightarrow> jsval \<Rightarrow> bool" where
  "is_document Initial (JInitial d) = True"
| "is_document External (JExternal d) = True"
| "is_document k v = False"

text \<open>
  Modelled from the spec: the answers a collaborator can give. The cache store
  (\<open>../core/Cache\<close>), \<open>delay\<close> (\<open>./utils\<close>) and the transport are absent from the
  sources. Section 6 of the spec gives the cache as \<open>getItem(key) -> value|undefined\<close>,
  \<open>setItem(key, value) -> void\<close>, \<open>removeItem(key) -> void\<close>, and section 7 lists no
  failure of the cache among the error kinds: a read yields a falsy value or a document of
  the slot's type (the declared return types of \<open>initialData\<close> and \<open>externalData\<close>),
  a write or a remove yields \<open>undefined\<close>, and the timer fires with \<open>undefined\<close>. The
  transport yields a response or fails; parsing the body (\<open>response.json()\<close>) yields a
  document of the type the caller declares, or fails.
\<close>

fun admissible :: "request \<Rightarrow> settled \<Rightarrow> bool" where
  "admissible RFetchGet out = (is_failure out \<or> is_response out)"
| "admissible (RJson k) out =
     (is_failure out \<or> (case out of Inr v \<Rightarrow> is_document k v | Inl e \<Rightarrow> False))"
| "admissible (RGetItem k) out =
     (case out of Inr v \<Rightarrow> (if truthy v then is_document k v else True) | Inl e \<Rightarrow> False)"
| "admissible RSetItem out = (out = Inr JUndefined)"
| "admissible RRemoveItem out = (out = Inr JUndefined)"
| "admissible RDelay out = (out = Inr JUndefined)"

text \<open>
  The points at which a method body is suspended, named by method and source line of the
  \<open>await\<close>. Each carries the promise the suspended call has returned to its caller
  (\<open>own\<close>) and the local variables that are live after the \<open>await\<close>. Private
  members of the class (\<open>_init\<close>, \<open>_initialPromise\<close>, ...) are written with the
  prefix \<open>u_\<close>.
\<close>

datatype kont =
    At_init_156 pid
  | At_u_init_165 pid
  | At_u_init_171 pid
  | At_fetchInitialData_180 pid
  | At_u_fetchInitialData_186 pid
  | At_u_fetchInitialData_187 pid
  | At_u_fetchInitialData_188 pid jsval
  | At_u_fetchExternalData_193 pid
  | At_u_fetchExternalData_194 pid jsval
  | At_fetchExternalData_207 pid
  | At_fetchExternalData_208 pid jsval
  | At_u_refreshExternalData_219 pid
  | At_u_refreshExternalData_220 pid
  | At_u_refreshExternalData_222 pid
  | At_refreshExternalData_230 pid
  | At_initialData_239 pid
  | At_externalData_244 pid
  | At_u_setInitialData_249 pid
  | At_u_setExternalData_257 pid
  | At_removeExternalData_264 pid
  | At_removeInitialData_268 pid
  | At_externalDataExpired_275 pid

text \<open>
  The state: the fields of the class (lines 106-123; the cache and the transport are the
  outside), the promises, the pending requests, the suspended calls in the order they
  started to wait, the queue of calls ready to resume, the calls made on the
  collaborators so far, the promises returned to callers of the public methods, the
  clock \<open>Date.now()\<close> and the next unused promise number.
\<close>

record state =
  u_initialCacheId :: string
  u_externalCacheId :: string
  u_initialEndpoint :: string
  u_clientId :: "string option"
  u_initialPromise :: "pid option"
  u_initialFetchPromise :: "pid option"
  u_externalFetchPromise :: "pid option"
  u_externalRefreshPromise :: "pid option"
  u_initialized :: bool
  u_refreshHandicapMs :: int
  u_refreshDelayMs :: int
  promises :: "pid \<Rightarrow> pstate"
  requests :: "pid \<Rightarrow> request option"
  waiters :: "(pid \<times> kont) list"
  microtasks :: "(kont \<times> settled) list"
  trace :: "effect list"
  returned :: "pid list"
  now :: int
  next_pid :: pid

text \<open>A new promise takes the next number and is pending.\<close>

definition new_promise :: "state \<Rightarrow> pid \<times> state" where
  "new_promise s =
     (next_pid s,
      s\<lparr>promises := (promises s)(next_pid s := Pending), next_pid := Suc (next_pid s)\<rparr>)"

definition perform :: "effect \<Rightarrow> state \<Rightarrow> state" where
  "perform e s = s\<lparr>trace := trace s @ [e]\<rparr>"

text \<open>A request to a collaborator returns a new promise, which the collaborator settles.\<close>

definition ask :: "request \<Rightarrow> state \<Rightarrow> pid \<times> state" where
  "ask r s =
     (next_pid s,
      s\<lparr>promises := (promises s)(next_pid s := Pending),
        requests := (requests s)(next_pid s := Some r),
        next_pid := Suc (next_pid s)\<rparr>)"

text \<open>
  \<open>await p\<close>: the call waits for \<open>p\<close>; if \<open>p\<close> has settled already, the call is
  queued to resume at once.
\<close>

definition await :: "pid \<Rightarrow> kont \<Rightarrow> state \<Rightarrow> state" where
  "await p k s =
     (case promises s p of
        Pending \<Rightarrow> s\<lparr>waiters := waiters s @ [(p, k)]\<rparr>
      | Fulfilled v \<Rightarrow> s\<lparr>microtasks := microtasks s @ [(k, Inr v)]\<rparr>
      | Rejected e \<Rightarrow> s\<lparr>microtasks := microtasks s @ [(k, Inl e)]\<rparr>)"

fun pstate_of :: "settled \<Rightarrow> pstate" where
  "pstate_of (Inl e) = Rejected e"
| "pstate_of (Inr v) = Fulfilled v"

text \<open>
  Settling \<open>p\<close> queues the calls that wait for \<open>p\<close>, in the order they started to wait.
\<close>

definition settle :: "pid \<Rightarrow> settled \<Rightarrow> state \<Rightarrow> state" where
  "settle p out s =
     s\<lparr>promises := (promises s)(p := pstate_of out),
       microtasks := microtasks s @ map (\<lambda>w. (snd w, out)) (filter (\<lambda>w. fst w = p) (waiters s)),
       waiters := filter (\<lambda>w. fst w \<noteq> p) (waiters s)\<rparr>"

section \<open>The methods of the class\<close>

text \<open>
  Each method is given by the part of its body that runs when it is called (up to its
  first \<open>await\<close>), which returns the promise handed to the caller, and by the parts that
  run when it resumes (\<open>resume\<close> below). \<open>return\<close> and \<open>throw\<close> settle the
  promise of the call.
\<close>

definition return :: "pid \<Rightarrow> jsval \<Rightarrow> state \<Rightarrow> state" where
  "return own v s = settle own (Inr v) s"

definition throw :: "pid \<Rightarrow> jserr \<Rightarrow> state \<Rightarrow> state" where
  "throw own e s = settle own (Inl e) s"

text \<open>The calls on the collaborators: the call is recorded and its promise is pending.\<close>

definition cache_getItem :: "slot \<Rightarrow> string \<Rightarrow> state \<Rightarrow> pid \<times> state" where
  "cache_getItem k key s = ask (RGetItem k) (perform (GetItem key) s)"

definition cache_setItem :: "string \<Rightarrow> jsval \<Rightarrow> state \<Rightarrow> pid \<times> state" where
  "cache_setItem key v s = ask RSetItem (perform (SetItem key v) s)"

definition cache_removeItem :: "string \<Rightarrow> state \<Rightarrow> pid \<times> state" where
  "cache_removeItem key s = ask RRemoveItem (perform (RemoveItem key) s)"

definition u_fetchGet :: "string \<Rightarrow> query \<Rightarrow> fetch_options \<Rightarrow> state \<Rightarrow> pid \<times> state" where
  "u_fetchGet url q opts s = ask RFetchGet (perform (FetchGet url q opts) s)"

definition response_json :: "slot \<Rightarrow> state \<Rightarrow> pid \<times> state" where
  "response_json k s = ask (RJson k) s"

definition delay :: "int \<Rightarrow> state \<Rightarrow> pid \<times> state" where
  "delay ms s = ask RDelay (perform (Delay ms) s)"

definition emit :: "events \<Rightarrow> jsval \<Rightarrow> state \<Rightarrow> state" where
  "emit ev payload s = perform (Emit ev payload) s"

text \<open>Lines 238-246: the cache readers.\<close>

definition initialData :: "state \<Rightarrow> pid \<times> state" where
  "initialData s =
     (let (own, s1) = new_promise s;
          (g, s2) = cache_getItem Initial (u_initialCacheId s1) s1
      in (own, await g (At_initialData_239 own) s2))"

definition externalData :: "state \<Rightarrow> pid \<times> state" where
  "externalData s =
     (let (own, s1) = new_promise s;
          (g, s2) = cache_getItem External (u_externalCacheId s1) s1
      in (own, await g (At_externalData_244 own) s2))"

text \<open>Lines 248-261: the cache writers.\<close>

definition u_setInitialData :: "jsval \<Rightarrow> state \<Rightarrow> pid \<times> state" where
  "u_setInitialData newData s =
     (let (own, s1) = new_promise s;
          (g, s2) = cache_setItem (u_initialCacheId s1) newData s1
      in (own, await g (At_u_setInitialData_249 own) s2))"

text \<open>
  \<open>newData.expiresIn\<close> throws a \<open>TypeError\<close> when \<open>newData\<close> is not an object; the
  promise of the call is then rejected and nothing is written.
\<close>

definition u_setExternalData :: "jsval \<Rightarrow> state \<Rightarrow> pid \<times> state" where
  "u_setExternalData newData s =
     (let (own, s1) = new_promise s
      in (case newData of
            JExternal d \<Rightarrow>
              (let (g, s2) = cache_setItem (u_externalCacheId s1)
                               (JExternal (stored_external (now s1) d)) s1
               in (own, await g (At_u_setExternalData_257 own) s2))
          | _ \<Rightarrow> (own, throw own (TypeError ''expiresIn'') s1)))"

text \<open>Lines 263-269.\<close>

definition removeExternalData :: "state \<Rightarrow> pid \<times> state" where
  "removeExternalData s =
     (let (own, s1) = new_promise s;
          (g, s2) = cache_removeItem (u_externalCacheId s1) s1
      in (own, await g (At_removeExternalData_264 own) s2))"

definition removeInitialData :: "state \<Rightarrow> pid \<times> state" where
  "removeInitialData s =
     (let (own, s1) = new_promise s;
          (g, s2) = cache_removeItem (u_initialCacheId s1) s1
      in (own, await g (At_removeInitialData_268 own) s2))"

text \<open>Lines 274-280.\<close>

definition externalDataExpired :: "state \<Rightarrow> pid \<times> state" where
  "externalDataExpired s =
     (let (own, s1) = new_promise s;
          (p, s2) = externalData s1
      in (own, await p (At_externalDataExpired_275 own) s2))"

text \<open>Lines 185-190 and 176-183: the initial document.\<close>

definition u_fetchInitialData :: "state \<Rightarrow> pid \<times> state" where
  "u_fetchInitialData s =
     (let (own, s1) = new_promise s;
          (g, s2) = u_fetchGet (u_initialEndpoint s1) (ClientIdQuery (u_clientId s1))
                      SkipAuthCheck s1
      in (own, await g (At_u_fetchInitialData_186 own) s2))"

definition fetchInitialData :: "state \<Rightarrow> pid \<times> state" where
  "fetchInitialData s =
     (let (own, s1) = new_promise s;
          s2 = (if u_initialFetchPromise s1 = None
                then (let (p, s') = u_fetchInitialData s1 in s'\<lparr>u_initialFetchPromise := Some p\<rparr>)
                else s1)
      in (own, await (the (u_initialFetchPromise s2)) (At_fetchInitialData_180 own) s2))"

text \<open>Lines 192-200 and 202-216: the external document.\<close>

definition u_fetchExternalData :: "string \<Rightarrow> state \<Rightarrow> pid \<times> state" where
  "u_fetchExternalData externalEndoint s =
     (let (own, s1) = new_promise s;
          (g, s2) = u_fetchGet externalEndoint NoQuery SkipDiscoveryCheck s1
      in (own, await g (At_u_fetchExternalData_193 own) s2))"

definition fetchExternalData :: "string \<Rightarrow> state \<Rightarrow> pid \<times> state" where
  "fetchExternalData externalEndoint s =
     (let (own, s1) = new_promise s;
          s2 = (if u_externalFetchPromise s1 = None
                then (let (p, s') = u_fetchExternalData externalEndoint s1
                      in s'\<lparr>u_externalFetchPromise := Some p\<rparr>)
                else s1)
      in (own, await (the (u_externalFetchPromise s2)) (At_fetchExternalData_207 own) s2))"

text \<open>Lines 218-223 and 225-236: the refresh.\<close>

definition u_refreshExternalData :: "state \<Rightarrow> pid \<times> state" where
  "u_refreshExternalData s =
     (let (own, s1) = new_promise s;
          (g, s2) = delay (u_refreshDelayMs s1) s1
      in (own, await g (At_u_refreshExternalData_219 own) s2))"

definition refreshExternalData :: "state \<Rightarrow> pid \<times> state" where
  "refreshExternalData s =
     (let (own, s1) = new_promise s;
          s2 = (if u_externalRefreshPromise s1 = None
                then (let (p, s') = u_refreshExternalData s1
                      in s'\<lparr>u_externalRefreshPromise := Some p\<rparr>)
                else s1)
      in (own, await (the (u_externalRefreshPromise s2)) (At_refreshExternalData_230 own) s2))"

text \<open>Lines 164-174 and 148-162: the bootstrap.\<close>

definition u_init :: "state \<Rightarrow> pid \<times> state" where
  "u_init s =
     (let (own, s1) = new_promise s;
          (p, s2) = initialData s1
      in (own, await p (At_u_init_165 own) s2))"

definition init :: "state \<Rightarrow> pid \<times> state" where
  "init s =
     (let (own, s1) = new_promise s
      in if \<not> truthy_str (u_clientId s1)
         then (own, throw own (Error ''Client Id is required for discovery'') s1)
         else
           (let s2 = (if u_initialPromise s1 = None
                      then (let (p, s') = u_init s1 in s'\<lparr>u_initialPromise := Some p\<rparr>)
                      else s1)
            in (own, await (the (u_initialPromise s2)) (At_init_156 own) s2)))"

section \<open>Resuming a suspended call\<close>

text \<open>
  \<open>resume k out\<close> runs the body of the suspended call \<open>k\<close> from its \<open>await\<close>,
  whose promise has settled with \<open>out\<close>, to the next \<open>await\<close> or to the end of the
  body. A rejected \<open>await\<close> throws; where the source has no \<open>catch\<close> around it,
  the call ends and its own promise is rejected. A property read on \<open>null\<close> throws
  a \<open>TypeError\<close>. The cases of line 194 for a value that is not a response or not an
  external document, and of line 220 for a truthy value that is not an external document,
  cannot arise from an admissible answer; they are given as a \<open>TypeError\<close>.
\<close>

fun resume :: "kont \<Rightarrow> settled \<Rightarrow> state \<Rightarrow> state" where
  \<comment> \<open>\<open>init\<close>, lines 156-161: the \<open>try\<close> and the \<open>catch\<close> both clear the cell\<close>
  "resume (At_init_156 own) (Inr v) s = return own JUndefined (s\<lparr>u_initialPromise := None\<rparr>)"
| "resume (At_init_156 own) (Inl e) s = throw own e (s\<lparr>u_initialPromise := None\<rparr>)"
  \<comment> \<open>\<open>_init\<close>, lines 165-171\<close>
| "resume (At_u_init_165 own) (Inr initialData') s =
     (if truthy initialData'
      then return own JUndefined (emit E_initialized initialData' (s\<lparr>u_initialized := True\<rparr>))
      else (let (p, s1) = fetchInitialData s in await p (At_u_init_171 own) s1))"
| "resume (At_u_init_165 own) (Inl e) s = throw own e s"
  \<comment> \<open>\<open>_init\<close>, lines 171-173\<close>
| "resume (At_u_init_171 own) (Inr initialData') s =
     return own JUndefined (emit E_initialized initialData' (s\<lparr>u_initialized := True\<rparr>))"
| "resume (At_u_init_171 own) (Inl e) s = throw own e s"
  \<comment> \<open>\<open>fetchInitialData\<close>, lines 180-182: no \<open>catch\<close>, a failure leaves the cell as it is\<close>
| "resume (At_fetchInitialData_180 own) (Inr initialData') s =
     return own initialData' (s\<lparr>u_initialFetchPromise := None\<rparr>)"
| "resume (At_fetchInitialData_180 own) (Inl e) s = throw own e s"
  \<comment> \<open>\<open>_fetchInitialData\<close>, lines 186-189\<close>
| "resume (At_u_fetchInitialData_186 own) (Inr response) s =
     (let (j, s1) = response_json Initial s in await j (At_u_fetchInitialData_187 own) s1)"
| "resume (At_u_fetchInitialData_186 own) (Inl e) s = throw own e s"
| "resume (At_u_fetchInitialData_187 own) (Inr initialData') s =
     (let (p, s1) = u_setInitialData initialData' s
      in await p (At_u_fetchInitialData_188 own initialData') s1)"
| "resume (At_u_fetchInitialData_187 own) (Inl e) s = throw own e s"
| "resume (At_u_fetchInitialData_188 own initialData') (Inr v) s = return own initialData' s"
| "resume (At_u_fetchInitialData_188 own initialData') (Inl e) s = throw own e s"
  \<comment> \<open>\<open>_fetchExternalData\<close>, lines 193-199\<close>
| "resume (At_u_fetchExternalData_193 own) (Inr response) s =
     (let (j, s1) = response_json External s in await j (At_u_fetchExternalData_194 own response) s1)"
| "resume (At_u_fetchExternalData_193 own) (Inl e) s = throw own e s"
| "resume (At_u_fetchExternalData_194 own response) (Inr externalData') s =
     (case response of
        JResponse headers \<Rightarrow>
          (case externalData' of
             JExternal d \<Rightarrow> return own (JExternal (attach_tag headers d)) s
           | _ \<Rightarrow> (if truthy_str (map_of headers ''discovery-tag'')
                   then throw own (TypeError ''tag'') s
                   else return own externalData' s))
      | _ \<Rightarrow> throw own (TypeError ''headers'') s)"
| "resume (At_u_fetchExternalData_194 own response) (Inl e) s = throw own e s"
  \<comment> \<open>\<open>fetchExternalData\<close>, lines 207-214: the \<open>catch\<close> clears the cell\<close>
| "resume (At_fetchExternalData_207 own) (Inr externalData') s =
     (let (p, s1) = u_setExternalData externalData' s
      in await p (At_fetchExternalData_208 own externalData') s1)"
| "resume (At_fetchExternalData_207 own) (Inl e) s =
     throw own e (s\<lparr>u_externalFetchPromise := None\<rparr>)"
| "resume (At_fetchExternalData_208 own externalData') (Inr v) s =
     return own externalData'
       (emit E_externalDataUpdated externalData' (s\<lparr>u_externalFetchPromise := None\<rparr>))"
| "resume (At_fetchExternalData_208 own externalData') (Inl e) s =
     throw own e (s\<lparr>u_externalFetchPromise := None\<rparr>)"
  \<comment> \<open>\<open>_refreshExternalData\<close>, lines 219-222\<close>
| "resume (At_u_refreshExternalData_219 own) (Inr v) s =
     (let (p, s1) = externalData s in await p (At_u_refreshExternalData_220 own) s1)"
| "resume (At_u_refreshExternalData_219 own) (Inl e) s = throw own e s"
| "resume (At_u_refreshExternalData_220 own) (Inr oldExternalData) s =
     (case oldExternalData of
        JExternal d \<Rightarrow>
          (let (p, s1) = fetchExternalData (externalUri (discoveryApi d)) s
           in await p (At_u_refreshExternalData_222 own) s1)
      | _ \<Rightarrow> throw own (TypeError ''discoveryApi'') s)"
| "resume (At_u_refreshExternalData_220 own) (Inl e) s = throw own e s"
| "resume (At_u_refreshExternalData_222 own) (Inr v) s = return own JUndefined s"
| "resume (At_u_refreshExternalData_222 own) (Inl e) s = throw own e s"
  \<comment> \<open>\<open>refreshExternalData\<close>, lines 230-234\<close>
| "resume (At_refreshExternalData_230 own) (Inr v) s =
     return own JUndefined (s\<lparr>u_externalRefreshPromise := None\<rparr>)"
| "resume (At_refreshExternalData_230 own) (Inl e) s =
     throw own e (s\<lparr>u_externalRefreshPromise := None\<rparr>)"
  \<comment> \<open>\<open>initialData\<close> and \<open>externalData\<close>, lines 239-240 and 244-245\<close>
| "resume (At_initialData_239 own) (Inr data) s = return own (or_null data) s"
| "resume (At_initialData_239 own) (Inl e) s = throw own e s"
| "resume (At_externalData_244 own) (Inr data) s = return own (or_null data) s"
| "resume (At_externalData_244 own) (Inl e) s = throw own e s"
  \<comment> \<open>the writers and removers, lines 249, 257, 264, 268\<close>
| "resume (At_u_setInitialData_249 own) (Inr v) s = return own JUndefined s"
| "resume (At_u_setInitialData_249 own) (Inl e) s = throw own e s"
| "resume (At_u_setExternalData_257 own) (Inr v) s = return own JUndefined s"
| "resume (At_u_setExternalData_257 own) (Inl e) s = throw own e s"
| "resume (At_removeExternalData_264 own) (Inr v) s = return own JUndefined s"
| "resume (At_removeExternalData_264 own) (Inl e) s = throw own e s"
| "resume (At_removeInitialData_268 own) (Inr v) s = return own JUndefined s"
| "resume (At_removeInitialData_268 own) (Inl e) s = throw own e s"
  \<comment> \<open>\<open>externalDataExpired\<close>, lines 275-279\<close>
| "resume (At_externalDataExpired_275 own) (Inr data) s =
     return own (JBool (expired_result (u_refreshHandicapMs s) (now s) data)) s"
| "resume (At_externalDataExpired_275 own) (Inl e) s = throw own e s"

section \<open>The coordinator as a transition system\<close>

text \<open>
  What can happen to a coordinator: a caller invokes a public method; a collaborator
  answers a pending request; the call at the head of the queue resumes (one microtask);
  the clock moves. An answer that the request cannot get, or to a promise that is not a
  pending request, changes nothing.
\<close>

datatype operation =
    Init
  | FetchInitialData
  | FetchExternalData string
  | RefreshExternalData
  | InitialData
  | ExternalData
  | RemoveExternalData
  | RemoveInitialData
  | ExternalDataExpired

datatype action = Call operation | Reply pid settled | Micro | Clock int

fun invoke :: "operation \<Rightarrow> state \<Rightarrow> pid \<times> state" where
  "invoke Init s = init s"
| "invoke FetchInitialData s = fetchInitialData s"
| "invoke (FetchExternalData externalEndoint) s = fetchExternalData externalEndoint s"
| "invoke RefreshExternalData s = refreshExternalData s"
| "invoke InitialData s = initialData s"
| "invoke ExternalData s = externalData s"
| "invoke RemoveExternalData s = removeExternalData s"
| "invoke RemoveInitialData s = removeInitialData s"
| "invoke ExternalDataExpired s = externalDataExpired s"

fun step :: "action \<Rightarrow> state \<Rightarrow> state" where
  "step (Call op) s = (let (p, s1) = invoke op s in s1\<lparr>returned := returned s1 @ [p]\<rparr>)"
| "step (Reply p out) s =
     (case requests s p of
        None \<Rightarrow> s
      | Some r \<Rightarrow>
          if admissible r out then settle p out (s\<lparr>requests := (requests s)(p := None)\<rparr>) else s)"
| "step Micro s =
     (case microtasks s of
        [] \<Rightarrow> s
      | (k, out) # rest \<Rightarrow> resume k out (s\<lparr>microtasks := rest\<rparr>))"
| "step (Clock t) s = s\<lparr>now := t\<rparr>"

fun run :: "action list \<Rightarrow> state \<Rightarrow> state" where
  "run [] s = s"
| "run (a # as) s = run as (step a s)"

text \<open>
  The constructor (lines 125-146): the options with their defaults, every cell empty,
  then the call \<open>this.init()\<close>, whose promise is dropped.
\<close>

record DiscoveryOptions =
  cacheId :: string
  initialEndpoint :: string
  clientId :: "string option"
  refreshHandicapMs :: "int option"
  refreshDelayMs :: "int option"

definition fresh :: "DiscoveryOptions \<Rightarrow> state" where
  "fresh opts =
     \<lparr>u_initialCacheId = cacheId opts @ ''-initial'',
      u_externalCacheId = cacheId opts @ ''-external'',
      u_initialEndpoint = initialEndpoint opts,
      u_clientId = clientId opts,
      u_initialPromise = None,
      u_initialFetchPromise = None,
      u_externalFetchPromise = None,
      u_externalRefreshPromise = None,
      u_initialized = False,
      u_refreshHandicapMs =
        (case refreshHandicapMs opts of None \<Rightarrow> DEFAULT_RENEW_HANDICAP_MS | Some h \<Rightarrow> h),
      u_refreshDelayMs = (case refreshDelayMs opts of None \<Rightarrow> 100 | Some d \<Rightarrow> d),
      promises = (\<lambda>p. Pending),
      requests = (\<lambda>p. None),
      waiters = [],
      microtasks = [],
      trace = [],
      returned = [],
      now = 0,
      next_pid = 0\<rparr>"

definition new_Discovery :: "DiscoveryOptions \<Rightarrow> state" where
  "new_Discovery opts = snd (init (fresh opts))"

text \<open>The getter \<open>initialized\<close> (lines 282-284).\<close>

definition initialized :: "state \<Rightarrow> bool" where
  "initialized s = u_initialized s"

section \<open>Example inputs\<close>

definition example_options :: DiscoveryOptions where
  "example_options =
     \<lparr>cacheId = ''rc'', initialEndpoint = ''https://discovery.example.com/initial'',
      clientId = Some ''client'', refreshHandicapMs = None, refreshDelayMs = None\<rparr>"

definition example_initial :: InitialDiscoveryData where
  "example_initial =
     InitialDiscoveryData ''1.0'' 3 3
       (InitialDiscoveryApiData ''https://disc.example.com/external'')
       (InitialDisconveryAuthApiData ''https://auth/authorize'' ''https://auth/oidc''
          ''https://auth/token'')
       (DiscoveryCoreApiData ''https://api'') (DiscoveryRcmData ''https://rcm'' ''sdk'')
       (DiscoveryRcvData ''https://rcv'' ''https://rcv/api'' ''pubnub'') None None"

definition example_external :: ExternalDisconveryData where
  "example_external =
     \<lparr>version = ''1.0'', tag = None, expiresIn = Some 3600, expireTime = None,
      retryCount = 3, retryInterval = 3, retryCycleDelay = 10,
      discoveryApi = \<lparr>externalUri = ''https://disc2.example.com'',
                      initialUri = ''https://disc.example.com/initial''\<rparr>,
      authApi = ExternalDisconveryAuthApiData ''https://auth/authorize'' ''https://auth/oidc''
                  ''https://auth'' ''https://auth/token'',
      coreApi = DiscoveryCoreApiData ''https://api'',
      rcm = DiscoveryRcmData ''https://rcm'' ''sdk'',
      rcv = DiscoveryRcvData ''https://rcv'' ''https://rcv/api'' ''pubnub'',
      edc = None, glip = None\<rparr>"

section \<open>Predicates on states\<close>

text \<open>
  A state is well formed when every suspended call waits for a promise that has been
  created, and every cell holds such a promise. Every state of a coordinator is well
  formed (\<open>well_formed_run\<close> below).
\<close>

fun cell_ok :: "pid \<Rightarrow> pid option \<Rightarrow> bool" where
  "cell_ok n None = True"
| "cell_ok n (Some p) = (p < n)"

definition well_formed :: "state \<Rightarrow> bool" where
  "well_formed s =
     (list_all (\<lambda>w. fst w < next_pid s) (waiters s)
      \<and> cell_ok (next_pid s) (u_initialPromise s)
      \<and> cell_ok (next_pid s) (u_initialFetchPromise s)
      \<and> cell_ok (next_pid s) (u_externalFetchPromise s)
      \<and> cell_ok (next_pid s) (u_externalRefreshPromise s))"

text \<open>A bootstrap has succeeded: the event \<open>'initialized'\<close> has been emitted.\<close>

fun is_emit_initialized :: "effect \<Rightarrow> bool" where
  "is_emit_initialized (Emit E_initialized d) = True"
| "is_emit_initialized e = False"

definition bootstrapped :: "state \<Rightarrow> bool" where
  "bootstrapped s = list_ex is_emit_initialized (trace s)"

text \<open>
  A bootstrap is one run of \<open>_init\<close> (lines 164-174). It succeeds when \<open>_init\<close> runs to
  its end without throwing, which happens at one of two resumptions: at line 165 when the
  cache read resolves with a truthy document (\<open>_init\<close> returns at line 169), or at line 171
  when \<open>fetchInitialData()\<close> resolves (\<open>_init\<close> runs on to line 174). A rejected
  \<open>await\<close> at either line makes \<open>_init\<close> throw; a falsy document at line 165 makes it
  go on to \<open>fetchInitialData()\<close>. \<open>u_init_own k\<close> is the promise of the run of
  \<open>_init\<close> that the continuation \<open>k\<close> belongs to.
\<close>

fun u_init_succeeds :: "kont \<Rightarrow> settled \<Rightarrow> bool" where
  "u_init_succeeds (At_u_init_165 own) (Inr v) = truthy v"
| "u_init_succeeds (At_u_init_171 own) (Inr v) = True"
| "u_init_succeeds k out = False"

fun u_init_own :: "kont \<Rightarrow> pid option" where
  "u_init_own (At_u_init_165 own) = Some own"
| "u_init_own (At_u_init_171 own) = Some own"
| "u_init_own k = None"

text \<open>
  \<open>completes_bootstrap a s\<close>: the transition \<open>a\<close> from \<open>s\<close> is the resumption at which
  a bootstrap succeeds. \<open>bootstrap_succeeded as s\<close>: some transition of the schedule
  \<open>as\<close>, run from \<open>s\<close>, is such a resumption.
\<close>

fun completes_bootstrap :: "action \<Rightarrow> state \<Rightarrow> bool" where
  "completes_bootstrap Micro s =
     (case microtasks s of [] \<Rightarrow> False | (k, out) # rest \<Rightarrow> u_init_succeeds k out)"
| "completes_bootstrap a s = False"

fun bootstrap_succeeded :: "action list \<Rightarrow> state \<Rightarrow> bool" where
  "bootstrap_succeeded [] s = False"
| "bootstrap_succeeded (a # as) s = (completes_bootstrap a s \<or> bootstrap_succeeded as (step a s))"

text \<open>
  A bootstrap over the network, from the constructor on. The constructor has called
  \<open>init()\<close> (promise 0), which has called \<open>_init()\<close> (promise 1), which waits for the
  cache read (request 3). In \<open>bootstrap_fetch v h d\<close> the cache answers the read with a
  falsy value \<open>v\<close>, \<open>_init\<close> calls \<open>fetchInitialData()\<close>, the transport answers
  (request 6), the body parses to the document \<open>d\<close> (request 7), the cache completes
  the write (request 9), and \<open>_setInitialData\<close>, \<open>_fetchInitialData\<close> and
  \<open>fetchInitialData\<close> resume in turn. What remains is for \<open>_init\<close> to resume at line
  171, and then \<open>init\<close> at line 156. In \<open>bootstrap_fetch_fails v m\<close> the transport
  fails instead, and every suspended call resumes, \<open>_init\<close> and \<open>init\<close> included.
\<close>

definition bootstrap_fetch ::
  "jsval \<Rightarrow> (string \<times> string) list \<Rightarrow> InitialDiscoveryData \<Rightarrow> action list" where
  "bootstrap_fetch v h d =
     [Reply 3 (Inr v), Micro, Micro, Reply 6 (Inr (JResponse h)), Micro,
      Reply 7 (Inr (JInitial d)), Micro, Reply 9 (Inr JUndefined), Micro, Micro, Micro]"

definition bootstrap_fetch_fails :: "jsval \<Rightarrow> string \<Rightarrow> action list" where
  "bootstrap_fetch_fails v m =
     [Reply 3 (Inr v), Micro, Micro, Reply 6 (Inl (Failure m)), Micro, Micro, Micro, Micro]"

text \<open>Counting the calls on the transport, the cache writes and the update events.\<close>

fun is_fetchGet :: "effect \<Rightarrow> bool" where
  "is_fetchGet (FetchGet url q opts) = True"
| "is_fetchGet e = False"

fun is_setItem :: "effect \<Rightarrow> bool" where
  "is_setItem (SetItem key v) = True"
| "is_setItem e = False"

fun is_emit_externalDataUpdated :: "effect \<Rightarrow> bool" where
  "is_emit_externalDataUpdated (Emit E_externalDataUpdated d) = True"
| "is_emit_externalDataUpdated e = False"

definition transport_calls :: "state \<Rightarrow> nat" where
  "transport_calls s = length (filter is_fetchGet (trace s))"

definition cache_writes :: "state \<Rightarrow> nat" where
  "cache_writes s = length (filter is_setItem (trace s))"

definition update_events :: "state \<Rightarrow> nat" where
  "update_events s = length (filter is_emit_externalDataUpdated (trace s))"

text \<open>
  Two schedules used below. In \<open>failed_bootstrap\<close> the cache is empty at construction and
  the transport fails: the read answers \<open>undefined\<close>, \<open>_init\<close> calls
  \<open>fetchInitialData\<close>, the request fails, and the four suspended calls resume in turn.
  In \<open>ready\<close> the cache holds an initial document at construction, and the bootstrap
  completes from it.
\<close>

definition failed_bootstrap :: state where
  "failed_bootstrap =
     run [Reply 3 (Inr JUndefined), Micro, Micro, Reply 6 (Inl (Failure ''network'')),
          Micro, Micro, Micro, Micro] (new_Discovery example_options)"

definition ready :: state where
  "ready =
     run [Reply 3 (Inr (JInitial example_initial)), Micro, Micro, Micro]
       (new_Discovery example_options)"

section \<open>Concurrent callers of one method\<close>

























text \<open>
  A schedule in which two attempts of \<open>fetchExternalData\<close> overlap. Two callers (promises
  4 and 7) share the first attempt (promise 5), which succeeds; each caller then starts its
  own write (requests 10 and 12). The first caller's write completes, and the first caller
  empties the memo cell (line 209). A third caller (promise 13) finds the cell empty and
  starts a second attempt (promise 14, request 15). Then the second caller's write
  completes, and the second caller, too, runs line 209.
\<close>

definition overlapping_fetches :: "action list" where
  "overlapping_fetches =
     [Call (FetchExternalData ''https://disc.example.com/external''),
      Call (FetchExternalData ''https://disc.example.com/external''),
      Reply 6 (Inr (JResponse [])), Micro, Reply 8 (Inr (JExternal example_external)), Micro,
      Micro, Micro, Reply 10 (Inr JUndefined), Micro, Micro,
      Call (FetchExternalData ''https://disc.example.com/external''),
      Reply 12 (Inr JUndefined), Micro, Micro]"

section \<open>Unfolding the methods\<close>

lemmas prim_defs = new_promise_def perform_def ask_def await_def settle_def return_def throw_def
  cache_getItem_def cache_setItem_def cache_removeItem_def u_fetchGet_def response_json_def
  delay_def emit_def

lemmas method_defs = initialData_def externalData_def u_setInitialData_def u_setExternalData_def
  removeExternalData_def removeInitialData_def externalDataExpired_def u_fetchInitialData_def
  fetchInitialData_def u_fetchExternalData_def fetchExternalData_def u_refreshExternalData_def
  refreshExternalData_def u_init_def init_def

lemmas eval_defs = prim_defs method_defs new_Discovery_def fresh_def Let_def or_null_def
  expired_result_def stored_external_def attach_tag_def DEFAULT_RENEW_HANDICAP_MS_def

section \<open>Well-formedness is invariant\<close>

lemma well_formed_fresh: "well_formed (fresh opts)"
  by (simp add: well_formed_def fresh_def)

lemma cell_ok_mono: "cell_ok n c \<Longrightarrow> n \<le> m \<Longrightarrow> cell_ok m c"
  by (cases c) auto

lemma well_formed_invoke: "well_formed s \<Longrightarrow> well_formed (snd (invoke op s))"
  by (cases op)
    (auto simp: well_formed_def eval_defs list_all_iff
          split: pstate.splits jsval.splits option.splits if_splits prod.splits
          elim!: cell_ok_mono)

lemma well_formed_settle: "well_formed s \<Longrightarrow> well_formed (settle p out s)"
  by (auto simp: well_formed_def settle_def list_all_iff)

lemma well_formed_update:
  "well_formed s \<Longrightarrow> well_formed (s\<lparr>microtasks := m\<rparr>)"
  "well_formed s \<Longrightarrow> well_formed (s\<lparr>requests := r\<rparr>)"
  "well_formed s \<Longrightarrow> well_formed (s\<lparr>now := t\<rparr>)"
  "well_formed s \<Longrightarrow> well_formed (s\<lparr>returned := rs\<rparr>)"
  by (auto simp: well_formed_def)

lemma well_formed_resume: "well_formed s \<Longrightarrow> well_formed (resume k out s)"
  by (cases k; cases out)
    (auto simp: well_formed_def eval_defs list_all_iff
          split: pstate.splits jsval.splits option.splits if_splits prod.splits
          elim!: cell_ok_mono)

lemma well_formed_step: "well_formed s \<Longrightarrow> well_formed (step a s)"
proof (cases a)
  case (Call op)
  assume "well_formed s"
  then have "well_formed (snd (invoke op s))" by (rule well_formed_invoke)
  then show ?thesis using Call by (simp add: split_def Let_def well_formed_update)
next
  case (Reply p out)
  assume "well_formed s"
  then show ?thesis using Reply
    by (auto simp: well_formed_settle well_formed_update split: option.splits)
next
  case Micro
  assume "well_formed s"
  then show ?thesis using Micro
    by (auto simp: well_formed_resume well_formed_update split: list.splits)
next
  case (Clock t)
  assume "well_formed s"
  then show ?thesis using Clock by (simp add: well_formed_update)
qed

lemma well_formed_run: "well_formed s \<Longrightarrow> well_formed (run as s)"
  by (induction as arbitrary: s) (auto simp: well_formed_step)

lemma well_formed_new_Discovery: "well_formed (new_Discovery opts)"
  unfolding new_Discovery_def using well_formed_invoke [of "fresh opts" Init]
  by (simp add: well_formed_fresh)

text \<open>No suspended call of a well-formed state waits for a promise that is yet to be created.\<close>

lemma fresh_waiters:
  "well_formed s \<Longrightarrow> next_pid s \<le> p \<Longrightarrow> filter (\<lambda>w. fst w = p) (waiters s) = []"
  "well_formed s \<Longrightarrow> next_pid s \<le> p \<Longrightarrow> filter (\<lambda>w. fst w \<noteq> p) (waiters s) = waiters s"
  by (auto simp: well_formed_def list_all_iff filter_empty_conv filter_id_conv)

section \<open>Expiry of the external document\<close>

text \<open>
  C1 (as the code behaves at an input where it differs from the claim). The claim:
  \<open>externalDataExpired()\<close> answers true when no document is cached, and otherwise
  exactly when the current time has reached \<open>expireTime - refreshHandicapMs\<close>.
  The code compares the other way round (\<open>expireTime - handicap > now\<close>): with the
  default handicap of 60000 ms, a document that expires at 10000000 is reported expired at
  time 0, long before its expiry, and reported not expired at time 20000000, long after.
\<close>

theorem externalDataExpired_polarity:
  "promises (run [Call ExternalDataExpired,
                  Reply 6 (Inr (JExternal (example_external\<lparr>expireTime := Some 10000000\<rparr>))),
                  Micro, Micro] (new_Discovery example_options)) 4 = Fulfilled (JBool True)
   \<and> promises (run [Clock 20000000, Call ExternalDataExpired,
                  Reply 6 (Inr (JExternal (example_external\<lparr>expireTime := Some 10000000\<rparr>))),
                  Micro, Micro] (new_Discovery example_options)) 4 = Fulfilled (JBool False)"
  by (simp add: eval_defs example_options_def example_external_def)

text \<open>
  C5. An external document \<open>d\<close> persisted at time \<open>now s\<close> is written to the external
  cache slot as \<open>stored_external (now s) d\<close>: when \<open>expiresIn\<close> is present and not
  zero, the stored \<open>expireTime\<close> is \<open>now + expiresIn * 1000\<close>; when \<open>expiresIn\<close>
  is absent or zero, the stored \<open>expireTime\<close> is undefined; in both cases the
  \<open>expireTime\<close> of the payload plays no part, and every other field is stored as
  received.
\<close>

theorem setExternalData_expireTime:
  "trace (snd (u_setExternalData (JExternal d) s)) =
     trace s @ [SetItem (u_externalCacheId s) (JExternal (stored_external (now s) d))]
   \<and> (\<forall>n. expiresIn d = Some n \<and> n \<noteq> 0 \<longrightarrow>
          expireTime (stored_external (now s) d) = Some (now s + n * 1000))
   \<and> (expiresIn d = None \<or> expiresIn d = Some 0 \<longrightarrow>
          expireTime (stored_external (now s) d) = None)
   \<and> stored_external (now s) d = d\<lparr>expireTime := expireTime (stored_external (now s) d)\<rparr>"
  by (auto simp: u_setExternalData_def prim_defs stored_external_def Let_def split: pstate.splits)

theorem setExternalData_expireTime_witness:
  "trace (snd (u_setExternalData (JExternal example_external)
                 (fresh example_options\<lparr>now := 5000\<rparr>))) =
     [SetItem ''rc-external'' (JExternal (example_external\<lparr>expireTime := Some 3605000\<rparr>))]
   \<and> expiresIn example_external = Some 3600
   \<and> expireTime (stored_external 5000 example_external) = Some 3605000"
  using setExternalData_expireTime [of example_external "fresh example_options\<lparr>now := 5000\<rparr>"]
  by (simp add: example_external_def fresh_def example_options_def stored_external_def)

section \<open>The cache readers\<close>

text \<open>
  C10. For every value \<open>v\<close> that the cache can hand back, \<open>initialData()\<close> and
  \<open>externalData()\<close> resolve with the stored document when \<open>v\<close> is truthy and with
  \<open>null\<close> when \<open>v\<close> is falsy, never with \<open>undefined\<close>; the only call they make
  on a collaborator is the one \<open>getItem\<close> on their own slot (no write, no transport
  call). The call is made on a well-formed state in which no call is ready to resume.
\<close>

theorem cache_readers_normalise:
  assumes "well_formed s" and "microtasks s = []"
    and "admissible (RGetItem Initial) (Inr v)" and "admissible (RGetItem External) (Inr w)"
  shows "promises (run [Call InitialData, Reply (Suc (next_pid s)) (Inr v), Micro] s) (next_pid s)
           = Fulfilled (if truthy v then v else JNull)
       \<and> trace (run [Call InitialData, Reply (Suc (next_pid s)) (Inr v), Micro] s)
           = trace s @ [GetItem (u_initialCacheId s)]
       \<and> promises (run [Call ExternalData, Reply (Suc (next_pid s)) (Inr w), Micro] s) (next_pid s)
           = Fulfilled (if truthy w then w else JNull)
       \<and> trace (run [Call ExternalData, Reply (Suc (next_pid s)) (Inr w), Micro] s)
           = trace s @ [GetItem (u_externalCacheId s)]
       \<and> (if truthy v then v else JNull) \<noteq> JUndefined
       \<and> (if truthy w then w else JNull) \<noteq> JUndefined"
  using assms
  by (auto simp: prim_defs initialData_def externalData_def Let_def or_null_def fresh_waiters)

theorem cache_readers_normalise_witness:
  "well_formed (new_Discovery example_options)
   \<and> microtasks (new_Discovery example_options) = []
   \<and> promises (run [Call InitialData, Reply 5 (Inr (JInitial example_initial)), Micro]
                 (new_Discovery example_options)) 4 = Fulfilled (JInitial example_initial)
   \<and> promises (run [Call ExternalData, Reply 5 (Inr JUndefined), Micro]
                 (new_Discovery example_options)) 4 = Fulfilled JNull
   \<and> trace (run [Call ExternalData, Reply 5 (Inr JUndefined), Micro]
                 (new_Discovery example_options)) = [GetItem ''rc-initial'', GetItem ''rc-external'']"
  using cache_readers_normalise [of "new_Discovery example_options" "JInitial example_initial"
          JUndefined]
  by (simp add: eval_defs well_formed_def example_options_def)

section \<open>The bootstrap\<close>

lemma invoke_clientId: "u_clientId (snd (invoke op s)) = u_clientId s"
  by (cases op) (auto simp: eval_defs split: pstate.splits prod.splits)

lemma resume_clientId: "u_clientId (resume k out s) = u_clientId s"
  by (cases k; cases out) (auto simp: eval_defs split: pstate.splits prod.splits jsval.splits)

lemma step_clientId: "u_clientId (step a s) = u_clientId s"
  by (cases a)
    (auto simp: invoke_clientId resume_clientId Let_def split_def settle_def
          split: option.splits list.splits)

lemma invoke_no_bootstrap:
  "\<not> truthy_str (u_clientId s) \<Longrightarrow> u_initialPromise (snd (invoke op s)) = u_initialPromise s"
  by (cases op) (auto simp: eval_defs split: pstate.splits prod.splits)

lemma resume_no_bootstrap:
  "u_initialPromise s = None \<Longrightarrow> u_initialPromise (resume k out s) = None"
  by (cases k; cases out) (auto simp: eval_defs split: pstate.splits prod.splits jsval.splits)

lemma step_no_bootstrap:
  "\<not> truthy_str (u_clientId s) \<Longrightarrow> u_initialPromise s = None \<Longrightarrow>
     u_initialPromise (step a s) = None"
  by (cases a)
    (auto simp: invoke_no_bootstrap resume_no_bootstrap Let_def split_def settle_def
          split: option.splits list.splits)

lemma run_no_bootstrap:
  "\<not> truthy_str (u_clientId s) \<Longrightarrow> u_initialPromise s = None \<Longrightarrow>
     u_initialPromise (run as s) = None \<and> u_clientId (run as s) = u_clientId s"
  by (induction as arbitrary: s) (auto simp: step_no_bootstrap step_clientId)

lemma new_Discovery_no_clientId:
  "\<not> truthy_str (clientId opts) \<Longrightarrow>
     u_initialPromise (new_Discovery opts) = None \<and> u_clientId (new_Discovery opts) = clientId opts
     \<and> trace (new_Discovery opts) = [] \<and> requests (new_Discovery opts) = (\<lambda>p. None)
     \<and> promises (new_Discovery opts) 0 = Rejected (Error ''Client Id is required for discovery'')"
  by (auto simp: eval_defs)

lemma init_no_clientId:
  assumes "\<not> truthy_str (u_clientId s)"
  shows "fst (init s) = next_pid s"
    and "promises (snd (init s)) (next_pid s) =
           Rejected (Error ''Client Id is required for discovery'')"
    and "trace (snd (init s)) = trace s"
    and "requests (snd (init s)) = requests s"
    and "u_initialPromise (snd (init s)) = u_initialPromise s"
  using assms by (auto simp: init_def prim_defs Let_def)

text \<open>
  C6. A coordinator constructed with an empty or missing client identifier: the call of
  \<open>init()\<close> in the constructor, and every later call of \<open>init()\<close> (in whatever state
  \<open>run as\<close> has brought the coordinator to), returns a promise rejected with the
  configuration error; the call makes no call on the transport or the cache (the trace and
  the pending requests are unchanged), and the bootstrap cell is and stays empty.
\<close>

theorem init_requires_clientId:
  assumes "\<not> truthy_str (clientId opts)"
  shows "trace (new_Discovery opts) = []
       \<and> promises (new_Discovery opts) 0 = Rejected (Error ''Client Id is required for discovery'')
       \<and> u_initialPromise (run as (new_Discovery opts)) = None
       \<and> fst (init (run as (new_Discovery opts))) = next_pid (run as (new_Discovery opts))
       \<and> promises (snd (init (run as (new_Discovery opts))))
            (next_pid (run as (new_Discovery opts)))
            = Rejected (Error ''Client Id is required for discovery'')
       \<and> trace (snd (init (run as (new_Discovery opts)))) = trace (run as (new_Discovery opts))
       \<and> requests (snd (init (run as (new_Discovery opts))))
            = requests (run as (new_Discovery opts))
       \<and> u_initialPromise (snd (init (run as (new_Discovery opts)))) = None"
proof -
  have n: "u_initialPromise (new_Discovery opts) = None"
    "u_clientId (new_Discovery opts) = clientId opts"
    using new_Discovery_no_clientId [OF assms] by simp_all
  have r: "u_initialPromise (run as (new_Discovery opts)) = None"
    "\<not> truthy_str (u_clientId (run as (new_Discovery opts)))"
    using run_no_bootstrap [of "new_Discovery opts" as] n assms by simp_all
  show ?thesis
    using new_Discovery_no_clientId [OF assms] r init_no_clientId [OF r(2)] by simp
qed

theorem init_requires_clientId_witness:
  "\<not> truthy_str (clientId (example_options\<lparr>clientId := Some ''''\<rparr>))
   \<and> promises (new_Discovery (example_options\<lparr>clientId := Some ''''\<rparr>)) 0
       = Rejected (Error ''Client Id is required for discovery'')
   \<and> promises (snd (init (run [Call InitialData, Call Init]
                  (new_Discovery (example_options\<lparr>clientId := Some ''''\<rparr>))))) 4
       = Rejected (Error ''Client Id is required for discovery'')
   \<and> trace (snd (init (run [Call InitialData, Call Init]
                  (new_Discovery (example_options\<lparr>clientId := Some ''''\<rparr>)))))
       = [GetItem ''rc-initial'']"
  using init_requires_clientId [of "example_options\<lparr>clientId := Some ''''\<rparr>"
          "[Call InitialData, Call Init]"]
  by (simp add: eval_defs example_options_def)

text \<open>
  C7. \<open>init()\<close> is called with a client identifier and an empty bootstrap cell, and the
  cache answers the read of the initial slot with a document \<open>d\<close>: the promise of
  \<open>init()\<close> is fulfilled, the flag \<open>initialized\<close> is true, the event
  \<open>'initialized'\<close> is emitted with \<open>d\<close>, and the only calls on collaborators are
  the cache read and the emission (the transport is not invoked).
\<close>

theorem init_short_circuit:
  assumes "well_formed s" and "microtasks s = []"
    and "truthy_str (u_clientId s)" and "u_initialPromise s = None"
  shows "promises (run [Call Init, Reply (next_pid s + 3) (Inr (JInitial d)), Micro, Micro, Micro] s)
           (next_pid s) = Fulfilled JUndefined
       \<and> initialized (run [Call Init, Reply (next_pid s + 3) (Inr (JInitial d)), Micro, Micro, Micro] s)
       \<and> trace (run [Call Init, Reply (next_pid s + 3) (Inr (JInitial d)), Micro, Micro, Micro] s)
           = trace s @ [GetItem (u_initialCacheId s), Emit E_initialized (JInitial d)]
       \<and> u_initialPromise
           (run [Call Init, Reply (next_pid s + 3) (Inr (JInitial d)), Micro, Micro, Micro] s) = None"
  using assms
  by (auto simp: eval_defs initialized_def fresh_waiters)

theorem init_short_circuit_witness:
  "well_formed (fresh example_options) \<and> microtasks (fresh example_options) = []
   \<and> truthy_str (u_clientId (fresh example_options))
   \<and> u_initialPromise (fresh example_options) = None
   \<and> promises (run [Call Init, Reply 3 (Inr (JInitial example_initial)), Micro, Micro, Micro]
                 (fresh example_options)) 0 = Fulfilled JUndefined
   \<and> initialized (run [Call Init, Reply 3 (Inr (JInitial example_initial)), Micro, Micro, Micro]
                 (fresh example_options))
   \<and> trace (run [Call Init, Reply 3 (Inr (JInitial example_initial)), Micro, Micro, Micro]
                 (fresh example_options))
       = [GetItem ''rc-initial'', Emit E_initialized (JInitial example_initial)]"
  using init_short_circuit [of "fresh example_options" example_initial]
  by (simp add: eval_defs initialized_def well_formed_def example_options_def)

section \<open>Readiness\<close>

lemma invoke_flag: "u_initialized (snd (invoke op s)) = u_initialized s"
  by (cases op) (auto simp: eval_defs split: pstate.splits prod.splits)

lemma invoke_bootstrapped: "bootstrapped (snd (invoke op s)) = bootstrapped s"
  by (cases op) (auto simp: bootstrapped_def eval_defs split: pstate.splits prod.splits)

lemma resume_flag_mono: "u_initialized s \<Longrightarrow> u_initialized (resume k out s)"
  by (cases k; cases out) (auto simp: eval_defs split: pstate.splits prod.splits jsval.splits)

lemma resume_flag_iff:
  "u_initialized s = bootstrapped s \<Longrightarrow> u_initialized (resume k out s) = bootstrapped (resume k out s)"
  by (cases k; cases out) (auto simp: bootstrapped_def eval_defs split: pstate.splits prod.splits jsval.splits)

lemma resume_flag_rise:
  "\<not> u_initialized s \<Longrightarrow> u_initialized (resume k out s) \<Longrightarrow>
     (\<exists>d. trace (resume k out s) = trace s @ [Emit E_initialized d])"
  by (cases k; cases out) (auto simp: eval_defs split: pstate.splits prod.splits jsval.splits if_splits)

lemma step_flag_mono: "u_initialized s \<Longrightarrow> u_initialized (step a s)"
  by (cases a) (auto simp: invoke_flag Let_def split_def settle_def resume_flag_mono split: option.splits list.splits)

lemma step_flag_iff:
  "u_initialized s = bootstrapped s \<Longrightarrow> u_initialized (step a s) = bootstrapped (step a s)"
proof (cases a)
  case (Call op)
  assume "u_initialized s = bootstrapped s"
  then show ?thesis using Call invoke_flag [of op s] invoke_bootstrapped [of op s]
    by (simp add: Let_def split_def bootstrapped_def)
next
  case (Reply p out)
  assume "u_initialized s = bootstrapped s"
  then show ?thesis using Reply by (auto simp: settle_def bootstrapped_def split: option.splits)
next
  case Micro
  assume a: "u_initialized s = bootstrapped s"
  show ?thesis
  proof (cases "microtasks s")
    case Nil
    then show ?thesis using Micro a by simp
  next
    case (Cons m rest)
    obtain k out where m: "m = (k, out)" by (cases m)
    have "u_initialized (s\<lparr>microtasks := rest\<rparr>) = bootstrapped (s\<lparr>microtasks := rest\<rparr>)"
      using a by (simp add: bootstrapped_def)
    then show ?thesis using Micro Cons m resume_flag_iff by simp
  qed
next
  case (Clock t)
  assume "u_initialized s = bootstrapped s"
  then show ?thesis using Clock by (simp add: bootstrapped_def)
qed

lemma step_flag_rise:
  "\<not> u_initialized s \<Longrightarrow> u_initialized (step a s) \<Longrightarrow>
     (\<exists>d. trace (step a s) = trace s @ [Emit E_initialized d])"
proof (cases a)
  case (Call op)
  assume "\<not> u_initialized s" "u_initialized (step a s)"
  then show ?thesis using Call invoke_flag [of op s] by (simp add: Let_def split_def)
next
  case (Reply p out)
  assume "\<not> u_initialized s" "u_initialized (step a s)"
  then show ?thesis using Reply by (auto simp: settle_def split: option.splits if_splits)
next
  case Micro
  assume a: "\<not> u_initialized s" "u_initialized (step a s)"
  show ?thesis
  proof (cases "microtasks s")
    case Nil
    then show ?thesis using Micro a by simp
  next
    case (Cons m rest)
    obtain k out where m: "m = (k, out)" by (cases m)
    show ?thesis using Micro Cons m a resume_flag_rise [of "s\<lparr>microtasks := rest\<rparr>" k out] by simp
  qed
next
  case (Clock t)
  assume "\<not> u_initialized s" "u_initialized (step a s)"
  then show ?thesis using Clock by simp
qed

lemma run_flag_mono: "u_initialized s \<Longrightarrow> u_initialized (run as s)"
  by (induction as arbitrary: s) (auto simp: step_flag_mono)

lemma run_flag_iff: "u_initialized s = bootstrapped s \<Longrightarrow> u_initialized (run as s) = bootstrapped (run as s)"
  by (induction as arbitrary: s) (auto simp: step_flag_iff)

lemma new_Discovery_flag: "u_initialized (new_Discovery opts) = False" "bootstrapped (new_Discovery opts) = False"
  by (auto simp: bootstrapped_def eval_defs)

lemma resume_flag_exact:
  "u_initialized (resume k out s) = (u_initialized s \<or> u_init_succeeds k out)"
  by (cases k; cases out) (auto simp: eval_defs split: pstate.splits prod.splits jsval.splits)

lemma step_flag_exact: "u_initialized (step a s) = (u_initialized s \<or> completes_bootstrap a s)"
proof (cases a)
  case (Call op)
  then show ?thesis using invoke_flag [of op s] by (simp add: Let_def split_def)
next
  case (Reply p out)
  then show ?thesis by (auto simp: settle_def split: option.splits)
next
  case Micro
  then show ?thesis by (auto simp: resume_flag_exact split: list.splits)
next
  case (Clock t)
  then show ?thesis by simp
qed

lemma run_flag_exact: "u_initialized (run as s) = (u_initialized s \<or> bootstrap_succeeded as s)"
  by (induction as arbitrary: s) (auto simp: step_flag_exact)

lemma resume_u_init_promise:
  "u_init_own k = Some own \<Longrightarrow> promises s own = Pending \<Longrightarrow>
     u_init_succeeds k out = (promises (resume k out s) own = Fulfilled JUndefined)"
  by (cases k; cases out) (auto simp: eval_defs split: pstate.splits prod.splits jsval.splits)

lemma step_u_init_promise:
  "microtasks s = (k, out) # rest \<Longrightarrow> u_init_own k = Some own \<Longrightarrow> promises s own = Pending \<Longrightarrow>
     completes_bootstrap Micro s = (promises (step Micro s) own = Fulfilled JUndefined)"
  using resume_u_init_promise [of k own "s\<lparr>microtasks := rest\<rparr>" out] by simp

lemma bootstrap_over_network:
  fixes h d opts v
  assumes "truthy_str (clientId opts)" "\<not> truthy v"
  defines "before \<equiv> run (bootstrap_fetch v h d) (new_Discovery opts)"
  shows "\<not> u_initialized before"
    "microtasks before = [(At_u_init_171 1, Inr (JInitial d))]"
    "promises before 1 = Pending" "promises before 0 = Pending"
    "u_initialized (run [Micro] before)"
    "promises (run [Micro] before) 1 = Fulfilled JUndefined"
    "u_initialized (run [Micro, Micro] before)"
    "promises (run [Micro, Micro] before) 0 = Fulfilled JUndefined"
    "microtasks (run [Micro, Micro] before) = []"
  using assms(1,2) unfolding before_def bootstrap_fetch_def
  by (simp_all add: eval_defs One_nat_def [symmetric] del: One_nat_def)

lemma bootstrap_over_network_fails:
  fixes m opts v
  assumes "truthy_str (clientId opts)" "\<not> truthy v"
  defines "after \<equiv> run (bootstrap_fetch_fails v m) (new_Discovery opts)"
  shows "\<not> u_initialized after"
    "promises after 1 = Rejected (Failure m)"
    "promises after 0 = Rejected (Failure m)"
    "microtasks after = []"
  using assms(1,2) unfolding after_def bootstrap_fetch_fails_def
  by (simp_all add: eval_defs One_nat_def [symmetric] del: One_nat_def)

text \<open>
  C9. The flag \<open>initialized\<close> is false when the constructor returns, and it becomes true
  exactly upon the first successful bootstrap:
  \<^item> a transition makes or leaves the flag true exactly when the flag was true already or
    the transition is the resumption at which a run of \<open>_init\<close> succeeds; so, in every
    state the coordinator reaches, the flag is true exactly when some transition on the way
    was such a resumption;
  \<^item> a resumption of \<open>_init\<close> is one at which it succeeds exactly when it fulfils the
    promise of that run of \<open>_init\<close> (the one \<open>init()\<close> waits for); a resumption at
    which \<open>_init\<close> throws, or goes on to fetch, does not;
  \<^item> a bootstrap over the network: the flag is still false when the fetched document has
    been stored and \<open>fetchInitialData()\<close> has resolved; it is true after \<open>_init\<close> has
    resumed, which fulfils its promise, and \<open>init()\<close> is then fulfilled. When the
    transport fails instead, \<open>init()\<close> is rejected with that failure and the flag is
    false;
  \<^item> the flag is true exactly when the event \<open>'initialized'\<close> has been emitted, and a
    transition that makes it true emits this event;
  \<^item> no transition, from any state, makes a true flag false again, whatever calls, answers
    or failures it consists of.
\<close>

theorem initialized_monotone:
  "\<not> initialized (new_Discovery opts)
   \<and> (initialized (run as (new_Discovery opts)) = bootstrap_succeeded as (new_Discovery opts))
   \<and> (initialized (step a s) = (initialized s \<or> completes_bootstrap a s))
   \<and> (microtasks s = (k, out) # rest \<and> u_init_own k = Some own \<and> promises s own = Pending \<longrightarrow>
        completes_bootstrap Micro s = (promises (step Micro s) own = Fulfilled JUndefined))
   \<and> (truthy_str (clientId opts) \<and> \<not> truthy v \<longrightarrow>
        \<not> initialized (run (bootstrap_fetch v h d) (new_Discovery opts))
        \<and> promises (run (bootstrap_fetch v h d) (new_Discovery opts)) 1 = Pending
        \<and> promises (run (bootstrap_fetch v h d) (new_Discovery opts)) 0 = Pending
        \<and> initialized (run [Micro] (run (bootstrap_fetch v h d) (new_Discovery opts)))
        \<and> promises (run [Micro] (run (bootstrap_fetch v h d) (new_Discovery opts))) 1
            = Fulfilled JUndefined
        \<and> initialized (run [Micro, Micro] (run (bootstrap_fetch v h d) (new_Discovery opts)))
        \<and> promises (run [Micro, Micro] (run (bootstrap_fetch v h d) (new_Discovery opts))) 0
            = Fulfilled JUndefined
        \<and> \<not> initialized (run (bootstrap_fetch_fails v m) (new_Discovery opts))
        \<and> promises (run (bootstrap_fetch_fails v m) (new_Discovery opts)) 1
            = Rejected (Failure m)
        \<and> promises (run (bootstrap_fetch_fails v m) (new_Discovery opts)) 0
            = Rejected (Failure m)
        \<and> microtasks (run (bootstrap_fetch_fails v m) (new_Discovery opts)) = [])
   \<and> (initialized (run as (new_Discovery opts)) = bootstrapped (run as (new_Discovery opts)))
   \<and> (\<not> initialized s \<and> initialized (step a s) \<longrightarrow>
        (\<exists>d. trace (step a s) = trace s @ [Emit E_initialized d]))
   \<and> (initialized s \<longrightarrow> initialized (step a s))
   \<and> (initialized s \<longrightarrow> initialized (run bs s))"
proof -
  have 1: "\<not> initialized (new_Discovery opts)"
    by (simp add: initialized_def new_Discovery_flag)
  have 2: "initialized (run as (new_Discovery opts)) = bootstrap_succeeded as (new_Discovery opts)"
    by (simp add: initialized_def run_flag_exact new_Discovery_flag)
  have 3: "initialized (step a s) = (initialized s \<or> completes_bootstrap a s)"
    by (simp add: initialized_def step_flag_exact)
  have 4: "microtasks s = (k, out) # rest \<and> u_init_own k = Some own \<and> promises s own = Pending \<longrightarrow>
        completes_bootstrap Micro s = (promises (step Micro s) own = Fulfilled JUndefined)"
    using step_u_init_promise [of s k out rest own] by blast
  have 5: "\<not> initialized (run (bootstrap_fetch v h d) (new_Discovery opts))
        \<and> promises (run (bootstrap_fetch v h d) (new_Discovery opts)) 1 = Pending
        \<and> promises (run (bootstrap_fetch v h d) (new_Discovery opts)) 0 = Pending
        \<and> initialized (run [Micro] (run (bootstrap_fetch v h d) (new_Discovery opts)))
        \<and> promises (run [Micro] (run (bootstrap_fetch v h d) (new_Discovery opts))) 1
            = Fulfilled JUndefined
        \<and> initialized (run [Micro, Micro] (run (bootstrap_fetch v h d) (new_Discovery opts)))
        \<and> promises (run [Micro, Micro] (run (bootstrap_fetch v h d) (new_Discovery opts))) 0
            = Fulfilled JUndefined"
    if c: "truthy_str (clientId opts)" "\<not> truthy v"
    unfolding initialized_def
    using bootstrap_over_network(1,3,4,5,6,7,8) [OF c, of h d] by blast
  have 6: "\<not> initialized (run (bootstrap_fetch_fails v m) (new_Discovery opts))
        \<and> promises (run (bootstrap_fetch_fails v m) (new_Discovery opts)) 1
            = Rejected (Failure m)
        \<and> promises (run (bootstrap_fetch_fails v m) (new_Discovery opts)) 0
            = Rejected (Failure m)
        \<and> microtasks (run (bootstrap_fetch_fails v m) (new_Discovery opts)) = []"
    if c: "truthy_str (clientId opts)" "\<not> truthy v"
    unfolding initialized_def
    using bootstrap_over_network_fails [OF c, of m] by blast
  have 7: "initialized (run as (new_Discovery opts)) = bootstrapped (run as (new_Discovery opts))"
    using run_flag_iff [of "new_Discovery opts" as] by (simp add: initialized_def new_Discovery_flag)
  have 8: "\<not> initialized s \<and> initialized (step a s) \<longrightarrow>
        (\<exists>d. trace (step a s) = trace s @ [Emit E_initialized d])"
    using step_flag_rise [of s a] by (simp add: initialized_def)
  have 9: "initialized s \<longrightarrow> initialized (step a s)" "initialized s \<longrightarrow> initialized (run bs s)"
    by (simp_all add: initialized_def step_flag_mono run_flag_mono)
  show ?thesis
    using 1 2 3 4 5 6 7 8 9 by blast
qed

theorem initialized_monotone_witness:
  "\<not> initialized (new_Discovery example_options)
   \<and> microtasks (run [Reply 3 (Inr (JInitial example_initial)), Micro]
                   (new_Discovery example_options))
       = [(At_u_init_165 1, Inr (JInitial example_initial))]
   \<and> u_init_own (At_u_init_165 1) = Some 1
   \<and> promises (run [Reply 3 (Inr (JInitial example_initial)), Micro]
                  (new_Discovery example_options)) 1 = Pending
   \<and> \<not> initialized (run [Reply 3 (Inr (JInitial example_initial)), Micro]
                       (new_Discovery example_options))
   \<and> completes_bootstrap Micro (run [Reply 3 (Inr (JInitial example_initial)), Micro]
                       (new_Discovery example_options))
   \<and> initialized (step Micro (run [Reply 3 (Inr (JInitial example_initial)), Micro]
                       (new_Discovery example_options)))
   \<and> promises (step Micro (run [Reply 3 (Inr (JInitial example_initial)), Micro]
                       (new_Discovery example_options))) 1 = Fulfilled JUndefined
   \<and> bootstrap_succeeded [Reply 3 (Inr (JInitial example_initial)), Micro, Micro]
        (new_Discovery example_options)
   \<and> bootstrapped (run [Reply 3 (Inr (JInitial example_initial)), Micro, Micro]
                       (new_Discovery example_options))
   \<and> truthy_str (clientId example_options) \<and> \<not> truthy JUndefined
   \<and> \<not> initialized (run (bootstrap_fetch JUndefined [] example_initial)
                       (new_Discovery example_options))
   \<and> initialized (run [Micro] (run (bootstrap_fetch JUndefined [] example_initial)
                       (new_Discovery example_options)))
   \<and> promises (run [Micro, Micro] (run (bootstrap_fetch JUndefined [] example_initial)
                       (new_Discovery example_options))) 0 = Fulfilled JUndefined
   \<and> \<not> initialized (run (bootstrap_fetch_fails JUndefined ''network'')
                       (new_Discovery example_options))
   \<and> promises (run (bootstrap_fetch_fails JUndefined ''network'')
                       (new_Discovery example_options)) 0 = Rejected (Failure ''network'')
   \<and> initialized (run [Call RefreshExternalData, Reply 6 (Inr JUndefined), Micro,
                        Reply 8 (Inr JUndefined), Micro, Micro, Micro]
                   (run [Reply 3 (Inr (JInitial example_initial)), Micro, Micro]
                       (new_Discovery example_options)))"
  using initialized_monotone [where opts = example_options
          and as = "[Reply 3 (Inr (JInitial example_initial)), Micro, Micro]"
          and s = "run [Reply 3 (Inr (JInitial example_initial)), Micro]
                     (new_Discovery example_options)"
          and a = Micro and k = "At_u_init_165 1"
          and out = "Inr (JInitial example_initial)" and rest = "[]" and own = 1
          and v = JUndefined and h = "[]" and d = example_initial and m = "''network''"
          and bs = "[Call RefreshExternalData, Reply 6 (Inr JUndefined), Micro,
                     Reply 8 (Inr JUndefined), Micro, Micro, Micro]"]
  by (simp add: eval_defs initialized_def bootstrapped_def example_options_def
        bootstrap_fetch_def bootstrap_fetch_fails_def One_nat_def [symmetric] del: One_nat_def)
section \<open>The memo cells\<close>

text \<open>
  C2 (as the code behaves at an input where it differs from the claim). The claim: for
  \<open>init\<close>, \<open>fetchInitialData\<close>, \<open>fetchExternalData\<close> and
  \<open>refreshExternalData\<close>, the memo cell is cleared when the operation in flight settles,
  resolved or rejected, so that the next call starts a new attempt.
  \<open>fetchInitialData\<close> has no \<open>catch\<close> (lines 176-183): after a failed transport
  request the cell \<open>_initialFetchPromise\<close> still holds the rejected promise, although
  nothing is in flight. A later \<open>fetchInitialData()\<close>, and a later \<open>init()\<close> on the
  still empty cache, are rejected with the old failure, and the transport has been invoked
  once in all.
\<close>

theorem fetchInitialData_failure_sticks:
  "u_initialFetchPromise failed_bootstrap = Some 5
   \<and> promises failed_bootstrap 5 = Rejected (Failure ''network'')
   \<and> u_initialPromise failed_bootstrap = None
   \<and> waiters failed_bootstrap = [] \<and> microtasks failed_bootstrap = []
   \<and> transport_calls failed_bootstrap = 1
   \<and> promises (run [Call FetchInitialData, Micro] failed_bootstrap) 7
       = Rejected (Failure ''network'')
   \<and> transport_calls (run [Call FetchInitialData, Micro] failed_bootstrap) = 1
   \<and> promises (run [Call Init, Reply 10 (Inr JUndefined), Micro, Micro, Micro, Micro, Micro]
                 failed_bootstrap) 7 = Rejected (Failure ''network'')
   \<and> transport_calls (run [Call Init, Reply 10 (Inr JUndefined), Micro, Micro, Micro, Micro, Micro]
                 failed_bootstrap) = 1"
  by (simp add: failed_bootstrap_def transport_calls_def eval_defs example_options_def)

text \<open>
  C4 (as the code behaves at an input where it differs from the claim). The claim: a
  successful fetch of the external document emits \<open>'external-data-updated'\<close> exactly
  once, however many callers share the fetch. The write and the emission are in the body
  of \<open>fetchExternalData\<close>, after the \<open>await\<close> of the shared promise (lines 207-211),
  not in \<open>_fetchExternalData\<close>: two callers that share one transport request write the
  document twice and emit the event twice.
\<close>

theorem fetchExternalData_emits_per_caller:
  "transport_calls
     (run [Call (FetchExternalData ''https://disc.example.com/external''),
           Call (FetchExternalData ''https://disc.example.com/external''),
           Reply 6 (Inr (JResponse [])), Micro, Reply 8 (Inr (JExternal example_external)),
           Micro, Micro, Micro, Reply 10 (Inr JUndefined), Micro, Micro,
           Reply 12 (Inr JUndefined), Micro, Micro] ready) = 1
   \<and> cache_writes
     (run [Call (FetchExternalData ''https://disc.example.com/external''),
           Call (FetchExternalData ''https://disc.example.com/external''),
           Reply 6 (Inr (JResponse [])), Micro, Reply 8 (Inr (JExternal example_external)),
           Micro, Micro, Micro, Reply 10 (Inr JUndefined), Micro, Micro,
           Reply 12 (Inr JUndefined), Micro, Micro] ready) = 2
   \<and> update_events
     (run [Call (FetchExternalData ''https://disc.example.com/external''),
           Call (FetchExternalData ''https://disc.example.com/external''),
           Reply 6 (Inr (JResponse [])), Micro, Reply 8 (Inr (JExternal example_external)),
           Micro, Micro, Micro, Reply 10 (Inr JUndefined), Micro, Micro,
           Reply 12 (Inr JUndefined), Micro, Micro] ready) = 2
   \<and> returned
     (run [Call (FetchExternalData ''https://disc.example.com/external''),
           Call (FetchExternalData ''https://disc.example.com/external''),
           Reply 6 (Inr (JResponse [])), Micro, Reply 8 (Inr (JExternal example_external)),
           Micro, Micro, Micro, Reply 10 (Inr JUndefined), Micro, Micro,
           Reply 12 (Inr JUndefined), Micro, Micro] ready) = [4, 7]"
  by (simp add: ready_def transport_calls_def cache_writes_def update_events_def eval_defs
        example_options_def)

section \<open>The refresh\<close>




section \<open>Deduplication of concurrent calls\<close>












































text \<open>
  A limit of the deduplication of \<open>fetchExternalData\<close>. Each caller empties the memo
  cell after its own write (line 209), whatever the cell holds by then. In the schedule
  \<open>overlapping_fetches\<close> the second caller of the first attempt does so when the cell holds
  the promise of the second attempt: the cell is empty while that attempt (promise 14) is
  still waiting for the transport (request 15). One more call then starts a third attempt
  with a request of its own (request 18), and two requests to the transport are pending at
  the same time. The theorem below is about the callers that find the promise of the
  attempt in the memo cell; it says nothing about calls made after the cell has been
  emptied in this way.
\<close>

lemma late_caller_clears_newer_attempt:
  "u_externalFetchPromise (run overlapping_fetches ready) = None
   \<and> promises (run overlapping_fetches ready) 14 = Pending
   \<and> requests (run overlapping_fetches ready) 15 = Some RFetchGet
   \<and> transport_calls (run overlapping_fetches ready) = 2
   \<and> transport_calls
       (run (overlapping_fetches @ [Call (FetchExternalData ''https://disc.example.com/external'')])
          ready) = 3
   \<and> requests
       (run (overlapping_fetches @ [Call (FetchExternalData ''https://disc.example.com/external'')])
          ready) 15 = Some RFetchGet
   \<and> requests
       (run (overlapping_fetches @ [Call (FetchExternalData ''https://disc.example.com/external'')])
          ready) 18 = Some RFetchGet"
  by (simp add: overlapping_fetches_def ready_def transport_calls_def eval_defs
        example_options_def One_nat_def [symmetric] del: One_nat_def)


end
